theory Spec2Isabelle
  imports Complex_Main "HOL-Library.Log_Nat"
begin

section \<open>JavaScript numbers\<close>

text \<open>
  Every quantity of the trading core is a JavaScript \<open>number\<close>. A number is modelled
  as a real, one of the two infinities, or NaN. Arithmetic on finite values is exact
  (rounding, overflow to an infinity and the sign of zero are not modelled: the single
  zero behaves as \<open>+0\<close>); the special values follow IEEE 754 as JavaScript
  implements it: \<open>0/0\<close>, \<open>Infinity - Infinity\<close> and \<open>0 * Infinity\<close> are NaN, a
  nonzero number divided by zero is an infinity, NaN is absorbing, and every
  comparison with NaN is false. The rounding of binary64 is defined further down and
  applied where a result depends on it.
\<close>

datatype jsnum = Num real | PosInf | NegInf | NaN

instantiation jsnum :: "{plus, minus, uminus, times, inverse, abs, ord}"
begin

fun uminus_jsnum :: "jsnum \<Rightarrow> jsnum" where
  "uminus_jsnum (Num a) = Num (- a)"
| "uminus_jsnum PosInf = NegInf"
| "uminus_jsnum NegInf = PosInf"
| "uminus_jsnum NaN = NaN"

fun plus_jsnum :: "jsnum \<Rightarrow> jsnum \<Rightarrow> jsnum" where
  "plus_jsnum NaN _ = NaN"
| "plus_jsnum _ NaN = NaN"
| "plus_jsnum (Num a) (Num b) = Num (a + b)"
| "plus_jsnum PosInf NegInf = NaN"
| "plus_jsnum NegInf PosInf = NaN"
| "plus_jsnum PosInf _ = PosInf"
| "plus_jsnum _ PosInf = PosInf"
| "plus_jsnum NegInf _ = NegInf"
| "plus_jsnum _ NegInf = NegInf"

definition minus_jsnum :: "jsnum \<Rightarrow> jsnum \<Rightarrow> jsnum" where
  "minus_jsnum a b = a + (- b)"

fun times_jsnum :: "jsnum \<Rightarrow> jsnum \<Rightarrow> jsnum" where
  "times_jsnum NaN _ = NaN"
| "times_jsnum _ NaN = NaN"
| "times_jsnum (Num a) (Num b) = Num (a * b)"
| "times_jsnum PosInf (Num b) = (if b = 0 then NaN else if 0 < b then PosInf else NegInf)"
| "times_jsnum NegInf (Num b) = (if b = 0 then NaN else if 0 < b then NegInf else PosInf)"
| "times_jsnum (Num a) PosInf = (if a = 0 then NaN else if 0 < a then PosInf else NegInf)"
| "times_jsnum (Num a) NegInf = (if a = 0 then NaN else if 0 < a then NegInf else PosInf)"
| "times_jsnum PosInf PosInf = PosInf"
| "times_jsnum PosInf NegInf = NegInf"
| "times_jsnum NegInf PosInf = NegInf"
| "times_jsnum NegInf NegInf = PosInf"

fun divide_jsnum :: "jsnum \<Rightarrow> jsnum \<Rightarrow> jsnum" where
  "divide_jsnum NaN _ = NaN"
| "divide_jsnum _ NaN = NaN"
| "divide_jsnum (Num a) (Num b) =
     (if b = 0 then (if a = 0 then NaN else if 0 < a then PosInf else NegInf)
      else Num (a / b))"
| "divide_jsnum (Num a) PosInf = Num 0"
| "divide_jsnum (Num a) NegInf = Num 0"
| "divide_jsnum PosInf (Num b) = (if 0 \<le> b then PosInf else NegInf)"
| "divide_jsnum NegInf (Num b) = (if 0 \<le> b then NegInf else PosInf)"
| "divide_jsnum PosInf _ = NaN"
| "divide_jsnum NegInf _ = NaN"

definition inverse_jsnum :: "jsnum \<Rightarrow> jsnum" where
  "inverse_jsnum a = divide (Num 1) a"

fun abs_jsnum :: "jsnum \<Rightarrow> jsnum" where
  "abs_jsnum (Num a) = Num \<bar>a\<bar>"
| "abs_jsnum PosInf = PosInf"
| "abs_jsnum NegInf = PosInf"
| "abs_jsnum NaN = NaN"

fun less_jsnum :: "jsnum \<Rightarrow> jsnum \<Rightarrow> bool" where
  "less_jsnum NaN _ = False"
| "less_jsnum _ NaN = False"
| "less_jsnum (Num a) (Num b) = (a < b)"
| "less_jsnum _ NegInf = False"
| "less_jsnum PosInf _ = False"
| "less_jsnum NegInf _ = True"
| "less_jsnum _ PosInf = True"

fun less_eq_jsnum :: "jsnum \<Rightarrow> jsnum \<Rightarrow> bool" where
  "less_eq_jsnum NaN _ = False"
| "less_eq_jsnum _ NaN = False"
| "less_eq_jsnum (Num a) (Num b) = (a \<le> b)"
| "less_eq_jsnum NegInf _ = True"
| "less_eq_jsnum _ PosInf = True"
| "less_eq_jsnum _ NegInf = False"
| "less_eq_jsnum PosInf _ = False"

instance ..

end

text \<open>\<open>Math.min\<close> and \<open>Math.max\<close>: NaN as soon as one argument is NaN.\<close>

fun Math_min :: "jsnum \<Rightarrow> jsnum \<Rightarrow> jsnum" where
  "Math_min NaN _ = NaN"
| "Math_min _ NaN = NaN"
| "Math_min a b = (if a \<le> b then a else b)"

fun Math_max :: "jsnum \<Rightarrow> jsnum \<Rightarrow> jsnum" where
  "Math_max NaN _ = NaN"
| "Math_max _ NaN = NaN"
| "Math_max a b = (if a \<le> b then b else a)"

text \<open>A value used as a condition: \<open>0\<close> and NaN are falsy, every other number is truthy.\<close>

definition truthy :: "jsnum \<Rightarrow> bool" where
  "truthy v = (v \<noteq> Num 0 \<and> v \<noteq> NaN)"

text \<open>
  \<open>xs[i]\<close> on a number array: out of range the read gives \<open>undefined\<close>, which
  the arithmetic that consumes it turns into NaN.
\<close>

definition js_nth :: "jsnum list \<Rightarrow> nat \<Rightarrow> jsnum" where
  "js_nth xs i = (if i < length xs then xs ! i else NaN)"

text \<open>\<open>xs.slice(-n)\<close>: the last \<open>n\<close> elements; \<open>-0\<close> is \<open>0\<close>, so \<open>n = 0\<close> keeps all.\<close>

definition slice_last :: "nat \<Rightarrow> 'a list \<Rightarrow> 'a list" where
  "slice_last n xs = (if n = 0 then xs else drop (length xs - n) xs)"

text \<open>\<open>xs.reduce((a, b) => a + b, 0)\<close>\<close>

definition js_sum :: "jsnum list \<Rightarrow> jsnum" where
  "js_sum xs = foldl (+) (Num 0) xs"

definition js_length :: "'a list \<Rightarrow> jsnum" where
  "js_length xs = Num (real (length xs))"

section \<open>Data model (types.ts)\<close>

datatype outcome = YES | NO

record MarketPrice =
  mp_marketId :: string
  mp_outcome :: outcome
  mp_price :: jsnum
  mp_liquidity :: jsnum
  mp_volume24h :: jsnum

record Position =
  pos_marketId :: string
  pos_outcome :: outcome
  pos_size :: jsnum
  pos_averagePrice :: jsnum
  pos_currentPrice :: jsnum
  pnl :: jsnum
  pnlPercent :: jsnum

record TradingConfig =
  minWinProbability :: jsnum
  maxPositionSizeUsd :: jsnum
  minMarketLiquidityUsd :: jsnum
  maxSlippagePercent :: jsnum
  maxDailyLossUsd :: jsnum
  maxPositions :: jsnum
  stopLossPercent :: jsnum
  pollIntervalMs :: jsnum

text \<open>
  The \<open>reason\<close> of a signal is the list of contributions joined by \<open>' | '\<close>; the
  model keeps the contributions and their numbers, not their rendering by \<open>toFixed\<close>.
\<close>

datatype reason =
    MomentumReason jsnum bool
  | PricingUnderReason jsnum
  | PricingOverReason jsnum
  | VolumeReason jsnum
  | TimeReason bool
  | HighVolMomentumReason

record TradeSignal =
  marketId :: string
  ts_outcome :: outcome
  ts_probability :: jsnum
  ts_confidence :: jsnum
  ts_signalStrength :: "jsnum option"
  recommendedSize :: jsnum
  ts_reason :: "reason list"

section \<open>RiskManager\<close>

record RiskManager =
  config :: TradingConfig
  dailyPnL :: jsnum
  positions :: "Position list"

definition new_RiskManager :: "TradingConfig \<Rightarrow> RiskManager" where
  "new_RiskManager c = \<lparr>config = c, dailyPnL = Num 0, positions = []\<rparr>"

definition canOpenPosition :: "RiskManager \<Rightarrow> TradeSignal \<Rightarrow> Position list \<Rightarrow> bool" where
  "canOpenPosition this signal currentPositions =
     (if dailyPnL this \<le> - maxDailyLossUsd (config this) then False
      else if maxPositions (config this) \<le> js_length currentPositions then False
      else (case find (\<lambda>p. pos_marketId p = marketId signal) currentPositions of
              Some existingPosition \<Rightarrow> False
            | None \<Rightarrow>
                if recommendedSize signal < Num 1 then False
                else True))"

definition adjustPositionSize :: "RiskManager \<Rightarrow> TradeSignal \<Rightarrow> Position list \<Rightarrow> jsnum" where
  "adjustPositionSize this signal currentPositions =
     (let adjustedSize = recommendedSize signal;
          adjustedSize = Math_min adjustedSize (maxPositionSizeUsd (config this));
          remainingLossCapacity = maxDailyLossUsd (config this) + dailyPnL this;
          adjustedSize =
            (if remainingLossCapacity < maxDailyLossUsd (config this) * Num 0.5
             then adjustedSize * Num 0.5 else adjustedSize);
          adjustedSize =
            (if maxPositions (config this) * Num 0.8 \<le> js_length currentPositions
             then adjustedSize * Num 0.7 else adjustedSize)
      in Math_max adjustedSize (Num 1))"

definition updateDailyPnL :: "RiskManager \<Rightarrow> jsnum \<Rightarrow> RiskManager" where
  "updateDailyPnL this p = this\<lparr>dailyPnL := dailyPnL this + p\<rparr>"

definition resetDailyPnL :: "RiskManager \<Rightarrow> RiskManager" where
  "resetDailyPnL this = this\<lparr>dailyPnL := Num 0\<rparr>"

definition shouldClosePosition :: "RiskManager \<Rightarrow> Position \<Rightarrow> bool" where
  "shouldClosePosition this position =
     (if pnlPercent position \<le> - stopLossPercent (config this) then True
      else if dailyPnL this + pnl position \<le> - maxDailyLossUsd (config this) then True
      else False)"

section \<open>ShortTermStrategy\<close>

record KLine =
  timestamp :: jsnum
  kl_open :: jsnum
  high :: jsnum
  low :: jsnum
  close :: jsnum
  volume :: "jsnum option"

record ShortTermStrategyConfig =
  momentumPeriods :: "nat list"
  momentumThreshold :: jsnum
  volatilityPeriod :: nat
  highVolatilityMultiplier :: jsnum
  pricingDeviationThreshold :: jsnum
  volumeAnomalyThreshold :: jsnum
  useTimeFactor :: bool
  earlyMarketWeight :: jsnum
  minConfidence :: jsnum
  minSignalStrength :: jsnum

text \<open>The defaults of the constructor, before the caller's partial configuration is spread over them.\<close>

definition default_config :: ShortTermStrategyConfig where
  "default_config =
     \<lparr>momentumPeriods = [3, 5], momentumThreshold = Num 0.001, volatilityPeriod = 10,
      highVolatilityMultiplier = Num 1.5, pricingDeviationThreshold = Num 0.05,
      volumeAnomalyThreshold = Num 2.0, useTimeFactor = True, earlyMarketWeight = Num 0.3,
      minConfidence = Num 0.60, minSignalStrength = Num 0.55\<rparr>"

record Factors =
  f_momentum :: jsnum
  f_volatility :: jsnum
  f_pricingDeviation :: jsnum
  f_volumeAnomaly :: jsnum
  f_timeFactor :: jsnum

record StrategySignal =
  ss_direction :: outcome
  ss_confidence :: jsnum
  ss_signalStrength :: jsnum
  ss_factors :: Factors
  ss_reasons :: "reason list"

subsection \<open>Factors\<close>

text \<open>One round of the loop over \<open>momentumPeriods\<close>, on the pair \<open>(totalMomentum, weightSum)\<close>.\<close>

definition momentum_step :: "jsnum list \<Rightarrow> jsnum \<Rightarrow> jsnum \<times> jsnum \<Rightarrow> nat \<Rightarrow> jsnum \<times> jsnum" where
  "momentum_step closes currentPrice acc period =
     (case acc of (totalMomentum, weightSum) \<Rightarrow>
        if length closes < period then acc
        else
          let pastPrice = js_nth closes (length closes - period);
              change = (currentPrice - pastPrice) / pastPrice;
              weight = (if period = 3 then Num 0.6 else Num 0.4)
          in (totalMomentum + change * weight, weightSum + weight))"

definition calculateMomentum :: "ShortTermStrategyConfig \<Rightarrow> KLine list \<Rightarrow> jsnum" where
  "calculateMomentum cfg klines =
     (if length klines < 5 then Num 0
      else
        let closes = map close klines;
            currentPrice = js_nth closes (length closes - 1);
            (totalMomentum, weightSum) =
               foldl (momentum_step closes currentPrice) (Num 0, Num 0) (momentumPeriods cfg);
            avgMomentum = (if Num 0 < weightSum then totalMomentum / weightSum else Num 0)
        in Math_max (Num (-1)) (Math_min (Num 1) (avgMomentum * Num 100)))"

text \<open>The loop \<open>for (i = 1; i < recentKlines.length; i++)\<close> over consecutive bars.\<close>

fun trueRanges :: "KLine list \<Rightarrow> jsnum list" where
  "trueRanges (prevK # currK # later) =
     (let tr1 = high currK - low currK;
          tr2 = \<bar>high currK - close prevK\<bar>;
          tr3 = \<bar>low currK - close prevK\<bar>
      in Math_max (Math_max tr1 tr2) tr3) # trueRanges (currK # later)"
| "trueRanges _ = []"

text \<open>The local constants \<open>atr\<close> and \<open>avgPrice\<close> of \<open>calculateVolatility\<close>.\<close>

definition atr_of :: "KLine list \<Rightarrow> jsnum" where
  "atr_of recentKlines = (let trs = trueRanges recentKlines in js_sum trs / js_length trs)"

definition avgPrice_of :: "KLine list \<Rightarrow> jsnum" where
  "avgPrice_of recentKlines =
     foldl (\<lambda>sum k. sum + close k) (Num 0) recentKlines / js_length recentKlines"

definition calculateVolatility :: "ShortTermStrategyConfig \<Rightarrow> KLine list \<Rightarrow> jsnum" where
  "calculateVolatility cfg klines =
     (if length klines < volatilityPeriod cfg then Num 0
      else
        let period = volatilityPeriod cfg;
            recentKlines = slice_last period klines;
            atr = atr_of recentKlines;
            avgPrice = avgPrice_of recentKlines;
            volatility = atr / avgPrice;
            avgVolatility = volatility;
            normalizedVolatility =
              Math_min (Num 1) (volatility / (avgVolatility * highVolatilityMultiplier cfg))
        in normalizedVolatility)"

definition calculatePricingDeviation :: "jsnum \<Rightarrow> KLine list \<Rightarrow> jsnum \<Rightarrow> jsnum" where
  "calculatePricingDeviation currentPrice klines polymarketYesPrice =
     (if length klines < 5 then Num 0
      else
        let recentKlines = slice_last 5 klines;
            prices = map close recentKlines;
            priceChange = (js_nth prices (length prices - 1) - js_nth prices 0) / js_nth prices 0;
            estimatedActualProbability = Num 0.5 + priceChange * Num 10;
            estimatedActualProbabilityClamped =
              Math_max (Num 0.3) (Math_min (Num 0.7) estimatedActualProbability);
            deviation = polymarketYesPrice - estimatedActualProbability
        in Math_max (Num (-1)) (Math_min (Num 1) (deviation * Num 2)))"

text \<open>\<open>k.volume || 0\<close>: a missing, zero or NaN volume counts as \<open>0\<close>.\<close>

definition volume_or_0 :: "KLine \<Rightarrow> jsnum" where
  "volume_or_0 k = (case volume k of None \<Rightarrow> Num 0 | Some v \<Rightarrow> if truthy v then v else Num 0)"

definition calculateVolumeAnomaly :: "ShortTermStrategyConfig \<Rightarrow> KLine list \<Rightarrow> jsnum \<Rightarrow> jsnum" where
  "calculateVolumeAnomaly cfg klines currentVolume24h =
     (if length klines < 5 then Num 0
      else
        let volumes = filter (\<lambda>v. Num 0 < v) (map volume_or_0 (slice_last 10 klines))
        in if length volumes = 0 then Num 0
           else
             let avgVolume = js_sum volumes / js_length volumes
             in if avgVolume = Num 0 then Num 0
                else
                  let volumeRatio = currentVolume24h / (avgVolume * Num 24 * Num 4);
                      anomaly = Math_min (Num 1) (volumeRatio / volumeAnomalyThreshold cfg)
                  in anomaly)"

text \<open>
  \<open>calculateTimeFactor\<close> reads the wall clock (\<open>Date.now()\<close>); the reading is the
  explicit argument \<open>now\<close>, in milliseconds.
\<close>

definition calculateTimeFactor :: "ShortTermStrategyConfig \<Rightarrow> jsnum \<Rightarrow> KLine list \<Rightarrow> jsnum \<Rightarrow> jsnum" where
  "calculateTimeFactor cfg now klines marketStartTime =
     (if length klines < 3 then Num 0
      else
        let timeSinceStart = (now - marketStartTime) / (Num 1000 * Num 60)
        in if timeSinceStart < Num 5 then
             let recentKlines = slice_last 3 klines;
                 prices = map close recentKlines;
                 trend = (js_nth prices (length prices - 1) - js_nth prices 0) / js_nth prices 0
             in Math_max (Num (-1)) (Math_min (Num 1) (trend * Num 100)) * earlyMarketWeight cfg
           else Num 0)"

subsection \<open>Combining the factors\<close>

definition calculateFactorAgreement :: "Factors \<Rightarrow> outcome \<Rightarrow> jsnum" where
  "calculateFactorAgreement factors direction =
     (let expectedSign = (if direction = YES then (1::int) else - 1);
          (agreement, count) = (Num 0, Num 0);
          (agreement, count) =
            (if Num 0.001 < \<bar>f_momentum factors\<bar> then
               let momentumSign = (if Num 0 < f_momentum factors then (1::int) else - 1)
               in (if momentumSign = expectedSign then agreement + Num 0.3 else agreement,
                   count + Num 1)
             else (agreement, count));
          (agreement, count) =
            (if Num 0.05 < \<bar>f_pricingDeviation factors\<bar> then
               let pricingSign = (if f_pricingDeviation factors < Num 0 then (1::int) else - 1)
               in (if pricingSign = expectedSign then agreement + Num 0.3 else agreement,
                   count + Num 1)
             else (agreement, count));
          (agreement, count) =
            (if Num 0.1 < \<bar>f_timeFactor factors\<bar> then
               let timeSign = (if Num 0 < f_timeFactor factors then (1::int) else - 1)
               in (if timeSign = expectedSign then agreement + Num 0.2 else agreement,
                   count + Num 1)
             else (agreement, count))
      in if Num 0 < count then agreement / count else Num 0)"

text \<open>
  \<open>combineFactors\<close> in two steps: \<open>combinedSignal\<close> is the signal it computes
  (score, direction, strength, confidence, reasons), \<open>combineFactors\<close> its final
  test against \<open>minSignalStrength\<close>.
\<close>

definition combinedSignal ::
  "ShortTermStrategyConfig \<Rightarrow> jsnum \<Rightarrow> jsnum \<Rightarrow> jsnum \<Rightarrow> jsnum \<Rightarrow> jsnum
     \<Rightarrow> StrategySignal" where
  "combinedSignal cfg momentum volatility pricingDeviation volumeAnomaly timeFactor =
     (let factors = \<lparr>f_momentum = momentum, f_volatility = volatility,
                      f_pricingDeviation = pricingDeviation, f_volumeAnomaly = volumeAnomaly,
                      f_timeFactor = timeFactor\<rparr>;
          momentumOn = (momentumThreshold cfg < \<bar>momentum\<bar>);
          momentumScore = (if momentumOn then momentum else Num 0);
          reasons = (if momentumOn then [MomentumReason (momentum * Num 100) (Num 0 < momentum)] else []);
          volatilityBoost = (if Num 0.5 < volatility then Num 1.2 else Num 1.0);
          pricingOn = (pricingDeviationThreshold cfg < \<bar>pricingDeviation\<bar>);
          pricingScore = (if pricingOn then - pricingDeviation else Num 0);
          reasons = reasons @
            (if pricingOn then
               (if pricingDeviation < Num 0
                then [PricingUnderReason (\<bar>pricingDeviation\<bar> * Num 100)]
                else [PricingOverReason (pricingDeviation * Num 100)])
             else []);
          volumeBoost = (if Num 0.5 < volumeAnomaly then Num 1.1 else Num 1.0);
          reasons = reasons @
            (if Num 0.5 < volumeAnomaly then [VolumeReason (volumeAnomaly * Num 100)] else []);
          timeScore = timeFactor;
          reasons = reasons @
            (if Num 0.1 < \<bar>timeFactor\<bar> then [TimeReason (Num 0 < timeFactor)] else []);
          combinedScore =
            momentumScore * Num 0.40 * volatilityBoost
            + pricingScore * Num 0.25
            + timeScore * Num 0.10
            + (momentumScore * volumeBoost - momentumScore) * Num 0.10;
          direction = (if Num 0 < combinedScore then YES else NO);
          signalStrength = Math_min (Num 1) \<bar>combinedScore\<bar>;
          confidence = signalStrength;
          factorAgreement = calculateFactorAgreement factors direction;
          confidence = confidence + factorAgreement * Num 0.2;
          highVol = (Num 0.6 < volatility \<and> Num 0.002 < \<bar>momentum\<bar>);
          confidence = (if highVol then confidence + Num 0.1 else confidence);
          reasons = reasons @ (if highVol then [HighVolMomentumReason] else []);
          confidence = (if Num 0.1 < \<bar>pricingDeviation\<bar> then confidence + Num 0.1 else confidence);
          confidence = Math_min (Num 1) confidence
      in \<lparr>ss_direction = direction, ss_confidence = confidence,
          ss_signalStrength = signalStrength, ss_factors = factors,
          ss_reasons = reasons\<rparr>)"

definition combineFactors ::
  "ShortTermStrategyConfig \<Rightarrow> jsnum \<Rightarrow> jsnum \<Rightarrow> jsnum \<Rightarrow> jsnum \<Rightarrow> jsnum
     \<Rightarrow> MarketPrice \<Rightarrow> MarketPrice \<Rightarrow> StrategySignal option" where
  "combineFactors cfg momentum volatility pricingDeviation volumeAnomaly timeFactor yesPrice noPrice =
     (let signal = combinedSignal cfg momentum volatility pricingDeviation volumeAnomaly timeFactor
      in if ss_signalStrength signal < minSignalStrength cfg then None else Some signal)"

definition calculatePositionSize :: "jsnum \<Rightarrow> jsnum \<Rightarrow> jsnum \<Rightarrow> jsnum \<Rightarrow> jsnum" where
  "calculatePositionSize probability liquidity confidence signalStrength =
     (let baseSize = Num 100;
          confidenceMultiplier = confidence;
          strengthMultiplier = signalStrength;
          probabilityMultiplier = (if Num 0.7 < probability then Num 0.8 else Num 1.0);
          size = baseSize * confidenceMultiplier * strengthMultiplier * probabilityMultiplier;
          maxSize = Math_min size (liquidity * Num 0.05)
      in Math_max (Num 50) (Math_min maxSize (Num 500)))"

subsection \<open>analyzeMarket\<close>

text \<open>
  What an awaited call to a collaborator produced: the promise was rejected (the
  \<open>await\<close> throws) or it resolved to a value. The two clients are functions of
  their arguments; \<open>analyzeMarket\<close> calls each of them once.
\<close>

datatype 'a awaited = Threw | Resolved 'a

record ChainlinkPrice =
  cp_symbol :: string
  cp_price :: jsnum
  cp_timestamp :: jsnum
  cp_source :: string

record ShortTermStrategy =
  chainlinkClient :: "string \<Rightarrow> ChainlinkPrice option awaited"
  klineClient :: "string \<Rightarrow> nat \<Rightarrow> KLine list awaited"
  strategyConfig :: ShortTermStrategyConfig

datatype failure = KlineClientRejected

text \<open>
  The end of \<open>analyzeMarket\<close>: the two threshold tests on what \<open>combineFactors\<close>
  returned, and the trade signal built from it.
\<close>

definition emitSignal ::
  "ShortTermStrategyConfig \<Rightarrow> string \<Rightarrow> MarketPrice \<Rightarrow> MarketPrice \<Rightarrow> StrategySignal option
     \<Rightarrow> TradeSignal option" where
  "emitSignal cfg mId yesPrice noPrice combined =
     (case combined of
        None \<Rightarrow> None
      | Some signal \<Rightarrow>
          if ss_confidence signal < minConfidence cfg then None
          else if ss_signalStrength signal < minSignalStrength cfg then None
          else
            Some
              \<lparr>marketId = mId,
               ts_outcome = ss_direction signal,
               ts_probability =
                 (if ss_direction signal = YES then mp_price yesPrice else mp_price noPrice),
               ts_confidence = ss_confidence signal,
               ts_signalStrength = Some (ss_signalStrength signal),
               recommendedSize =
                 calculatePositionSize
                   (if ss_direction signal = YES then mp_price yesPrice else mp_price noPrice)
                   (if ss_direction signal = YES then mp_liquidity yesPrice
                    else mp_liquidity noPrice)
                   (ss_confidence signal) (ss_signalStrength signal),
               ts_reason = ss_reasons signal\<rparr>)"

definition analyzeMarket ::
  "ShortTermStrategy \<Rightarrow> jsnum \<Rightarrow> string \<Rightarrow> string \<Rightarrow> MarketPrice list \<Rightarrow> jsnum option
     \<Rightarrow> failure + TradeSignal option" where
  "analyzeMarket this now symbol mId prices marketStartTime =
     (case (find (\<lambda>p. mp_outcome p = YES) prices, find (\<lambda>p. mp_outcome p = NO) prices) of
        (Some yesPrice, Some noPrice) \<Rightarrow>
          (let chainlinkPrice =
                 (case chainlinkClient this symbol of Threw \<Rightarrow> None | Resolved r \<Rightarrow> r)
           in case klineClient this symbol 50 of
                Threw \<Rightarrow> Inl KlineClientRejected
              | Resolved klines \<Rightarrow>
                  if length klines < 10 then Inr None
                  else
                    let cfg = strategyConfig this;
                        momentum = calculateMomentum cfg klines;
                        volatility = calculateVolatility cfg klines;
                        pricingDeviation =
                          (case chainlinkPrice of
                             Some cp \<Rightarrow>
                               calculatePricingDeviation (cp_price cp) klines (mp_price yesPrice)
                           | None \<Rightarrow> Num 0);
                        volumeAnomaly = calculateVolumeAnomaly cfg klines (mp_volume24h yesPrice);
                        timeFactor =
                          (case marketStartTime of
                             Some t \<Rightarrow>
                               if truthy t then calculateTimeFactor cfg now klines t else Num 0
                           | None \<Rightarrow> Num 0);
                        signal = combineFactors cfg momentum volatility pricingDeviation
                                   volumeAnomaly timeFactor yesPrice noPrice
                    in Inr (emitSignal cfg mId yesPrice noPrice signal))
      | _ \<Rightarrow> Inr None)"

section \<open>Binary64 rounding\<close>

text \<open>
  The definitions above compute with exact reals, which decides every comparison whose
  two sides are not within rounding distance of each other. Where the last place of a
  result matters, each arithmetic operation is followed by the rounding of IEEE 754
  binary64, to nearest with ties to even: 53 significant bits, exponents from -1022 to
  1023, below that the fixed spacing \<open>2^-1074\<close> of the subnormal numbers, and an infinity
  once the rounded magnitude reaches \<open>2^1024\<close>. A result that rounds to zero is the
  single zero of the model.
\<close>

definition pow2 :: "int \<Rightarrow> real" where
  "pow2 e = (if 0 \<le> e then 2 ^ nat e else 1 / 2 ^ nat (- e))"

text \<open>
  The binary exponent of a positive real, \<open>\<lfloor>log 2 a\<rfloor>\<close>, from the bit length of its
  integer part or of the integer part of its inverse.
\<close>

definition exponent2 :: "real \<Rightarrow> int" where
  "exponent2 a = (if 1 \<le> a then bitlen \<lfloor>a\<rfloor> - 1 else - bitlen (\<lceil>1 / a\<rceil> - 1))"

text \<open>The nearest integer, the even one of two that are equally near.\<close>

definition rne :: "real \<Rightarrow> int" where
  "rne y =
     (let f = \<lfloor>y\<rfloor>
      in if y - of_int f < 1 / 2 then f
         else if 1 / 2 < y - of_int f then f + 1
         else if even f then f else f + 1)"

definition binary64 :: "real \<Rightarrow> jsnum" where
  "binary64 x =
     (if x = 0 then Num 0
      else
        let e = max (exponent2 \<bar>x\<bar>) (- 1022);
            ulp = pow2 (e - 52);
            r = of_int (rne (\<bar>x\<bar> / ulp)) * ulp
        in if pow2 1024 \<le> r then (if 0 < x then PosInf else NegInf)
           else Num (if 0 < x then r else - r))"

text \<open>The rounding of the result of an operation; infinities and NaN are kept.\<close>

definition rounded :: "jsnum \<Rightarrow> jsnum" where
  "rounded v = (case v of Num r \<Rightarrow> binary64 r | _ \<Rightarrow> v)"

subsection \<open>calculateVolatility, every operation rounded\<close>

text \<open>
  The same function as \<open>calculateVolatility\<close>, operation by operation; the bars and
  the configuration are taken as they are.
\<close>

fun trueRanges64 :: "KLine list \<Rightarrow> jsnum list" where
  "trueRanges64 (prevK # currK # later) =
     (let tr1 = rounded (high currK - low currK);
          tr2 = \<bar>rounded (high currK - close prevK)\<bar>;
          tr3 = \<bar>rounded (low currK - close prevK)\<bar>
      in Math_max (Math_max tr1 tr2) tr3) # trueRanges64 (currK # later)"
| "trueRanges64 _ = []"

definition atr_of64 :: "KLine list \<Rightarrow> jsnum" where
  "atr_of64 recentKlines =
     (let trs = trueRanges64 recentKlines
      in rounded (foldl (\<lambda>a b. rounded (a + b)) (Num 0) trs / js_length trs))"

definition avgPrice_of64 :: "KLine list \<Rightarrow> jsnum" where
  "avgPrice_of64 recentKlines =
     rounded (foldl (\<lambda>sum k. rounded (sum + close k)) (Num 0) recentKlines
              / js_length recentKlines)"

text \<open>The local constant \<open>volatility\<close>.\<close>

definition volatility64 :: "ShortTermStrategyConfig \<Rightarrow> KLine list \<Rightarrow> jsnum" where
  "volatility64 cfg klines =
     (let period = volatilityPeriod cfg;
          recentKlines = slice_last period klines;
          atr = atr_of64 recentKlines;
          avgPrice = avgPrice_of64 recentKlines
      in rounded (atr / avgPrice))"

definition calculateVolatility64 :: "ShortTermStrategyConfig \<Rightarrow> KLine list \<Rightarrow> jsnum" where
  "calculateVolatility64 cfg klines =
     (if length klines < volatilityPeriod cfg then Num 0
      else
        let volatility = volatility64 cfg klines;
            avgVolatility = volatility;
            normalizedVolatility =
              Math_min (Num 1)
                (rounded (volatility / rounded (avgVolatility * highVolatilityMultiplier cfg)))
        in normalizedVolatility)"

section \<open>The pricing deviation as the specification words it\<close>

definition spec_clamp :: "jsnum \<Rightarrow> jsnum \<Rightarrow> jsnum \<Rightarrow> jsnum" where
  "spec_clamp x lo hi = Math_max lo (Math_min hi x)"

text \<open>
  \<open>trend = (close[-1] - close[0]) / close[0]\<close> over the last 5 bars,
  \<open>estimatedProbability = clamp(0.5 + trend*10, 0.3, 0.7)\<close>, and the deviation of
  the quote from it, scaled by 2 and clamped to \<open>[-1, 1]\<close>.
\<close>

definition spec_pricingDeviation :: "KLine list \<Rightarrow> jsnum \<Rightarrow> jsnum" where
  "spec_pricingDeviation klines quoteProbability =
     (let closes = map close (slice_last 5 klines);
          trend = (js_nth closes (length closes - 1) - js_nth closes 0) / js_nth closes 0;
          estimatedProbability = spec_clamp (Num 0.5 + trend * Num 10) (Num 0.3) (Num 0.7)
      in spec_clamp ((quoteProbability - estimatedProbability) * Num 2) (Num (-1)) (Num 1))"

text \<open>NaN, or a number of absolute value at most \<open>b\<close>.\<close>

definition within_or_NaN :: "real \<Rightarrow> jsnum \<Rightarrow> bool" where
  "within_or_NaN b v = (case v of NaN \<Rightarrow> True | Num r \<Rightarrow> \<bar>r\<bar> \<le> b | _ \<Rightarrow> False)"

section \<open>Concrete inputs\<close>

definition example_config :: TradingConfig where
  "example_config =
     \<lparr>minWinProbability = Num 0.60, maxPositionSizeUsd = Num 100,
      minMarketLiquidityUsd = Num 1000, maxSlippagePercent = Num 2, maxDailyLossUsd = Num 500,
      maxPositions = Num 5, stopLossPercent = Num 10, pollIntervalMs = Num 5000\<rparr>"

definition example_signal :: TradeSignal where
  "example_signal =
     \<lparr>marketId = ''m1'', ts_outcome = YES, ts_probability = Num 0.45, ts_confidence = Num 0.9,
      ts_signalStrength = Some (Num 0.8), recommendedSize = Num 72, ts_reason = []\<rparr>"

definition example_position :: Position where
  "example_position =
     \<lparr>pos_marketId = ''m1'', pos_outcome = YES, pos_size = Num 50, pos_averagePrice = Num 0.5,
      pos_currentPrice = Num 0.5, pnl = Num 0, pnlPercent = Num 0\<rparr>"

text \<open>A bar with the given high, low and close, and no volume.\<close>

definition bar :: "real \<Rightarrow> real \<Rightarrow> real \<Rightarrow> KLine" where
  "bar h l c =
     \<lparr>timestamp = Num 0, kl_open = Num c, high = Num h, low = Num l, close = Num c,
      volume = None\<rparr>"

definition rising_bars :: "KLine list" where
  "rising_bars =
     [bar 100 100 100, bar 100 100 100, bar 100 100 100, bar 100 100 100, bar 110 110 110]"

definition flat_bars :: "KLine list" where
  "flat_bars = replicate 10 (bar 100 100 100)"

definition zero_bars :: "KLine list" where
  "zero_bars = replicate 10 (bar 0 0 0)"

definition calm_bars :: "KLine list" where
  "calm_bars = replicate 10 (bar 101 99 100)"

definition wild_bars :: "KLine list" where
  "wild_bars = replicate 10 (bar 150 50 100)"


definition yes_quote :: MarketPrice where
  "yes_quote =
     \<lparr>mp_marketId = ''m1'', mp_outcome = YES, mp_price = Num 0.45, mp_liquidity = Num 10000,
      mp_volume24h = Num 5000\<rparr>"

definition no_quote :: MarketPrice where
  "no_quote =
     \<lparr>mp_marketId = ''m1'', mp_outcome = NO, mp_price = Num 0.55, mp_liquidity = Num 10000,
      mp_volume24h = Num 5000\<rparr>"

text \<open>The reference price is absent and every bar of the history is zero.\<close>

definition zero_bar_strategy :: ShortTermStrategy where
  "zero_bar_strategy =
     \<lparr>chainlinkClient = (\<lambda>symbol. Resolved None),
      klineClient = (\<lambda>symbol limit. Resolved zero_bars),
      strategyConfig = default_config\<rparr>"



section \<open>Risk manager: admission and exit\<close>

text \<open>
  C5. Once the accumulated daily PnL is at or below \<open>-maxDailyLossUsd\<close>,
  \<open>canOpenPosition\<close> returns false, for every signal and every list of positions.
\<close>

theorem canOpenPosition_daily_loss_cutoff:
  "dailyPnL this \<le> - maxDailyLossUsd (config this)
   \<Longrightarrow> canOpenPosition this signal currentPositions = False"
  by (simp add: canOpenPosition_def)

theorem canOpenPosition_daily_loss_cutoff_witness:
  "dailyPnL (updateDailyPnL (new_RiskManager example_config) (Num (-500)))
     \<le> - maxDailyLossUsd (config (updateDailyPnL (new_RiskManager example_config) (Num (-500))))
   \<and> canOpenPosition (updateDailyPnL (new_RiskManager example_config) (Num (-500)))
         example_signal [] = False"
proof -
  have h: "dailyPnL (updateDailyPnL (new_RiskManager example_config) (Num (-500)))
     \<le> - maxDailyLossUsd (config (updateDailyPnL (new_RiskManager example_config) (Num (-500))))"
    by (simp add: updateDailyPnL_def new_RiskManager_def example_config_def)
  show ?thesis
    using h canOpenPosition_daily_loss_cutoff [OF h, of example_signal "[]"] by simp
qed

text \<open>
  C6. If the current positions already hold one whose \<open>marketId\<close> is the signal's,
  \<open>canOpenPosition\<close> returns false, whatever the other fields of the signal and
  the state of the risk manager are.
\<close>

theorem canOpenPosition_dedup:
  "\<exists>p \<in> set currentPositions. pos_marketId p = marketId signal
   \<Longrightarrow> canOpenPosition this signal currentPositions = False"
  by (auto simp: canOpenPosition_def find_None_iff split: option.splits)

theorem canOpenPosition_dedup_witness:
  "(\<exists>p \<in> set [example_position]. pos_marketId p = marketId example_signal)
   \<and> canOpenPosition (new_RiskManager example_config) example_signal [example_position] = False"
proof -
  have h: "\<exists>p \<in> set [example_position]. pos_marketId p = marketId example_signal"
    by (simp add: example_position_def example_signal_def)
  show ?thesis
    using h canOpenPosition_dedup [OF h, of "new_RiskManager example_config"] by simp
qed

lemma stop_minus_one_le: "x \<noteq> NaN \<Longrightarrow> - x - Num 1 \<le> - x"
  by (cases x) (simp_all add: minus_jsnum_def)

text \<open>
  C7. \<open>shouldClosePosition\<close> returns true exactly when
  \<open>pnlPercent \<le> -stopLossPercent\<close> or \<open>dailyPnL + pnl \<le> -maxDailyLossUsd\<close>
  (the comparisons and the sum being JavaScript's); and, \<open>stopLossPercent\<close> being a
  number, a position with \<open>pnlPercent = -stopLossPercent - 1\<close> is closed.
\<close>

theorem shouldClosePosition_iff:
  "(shouldClosePosition this position
      = (pnlPercent position \<le> - stopLossPercent (config this)
         \<or> dailyPnL this + pnl position \<le> - maxDailyLossUsd (config this)))
   \<and> (stopLossPercent (config this) \<noteq> NaN
        \<longrightarrow> shouldClosePosition this
              (position\<lparr>pnlPercent := - stopLossPercent (config this) - Num 1\<rparr>))"
  by (simp add: shouldClosePosition_def stop_minus_one_le)

theorem shouldClosePosition_iff_witness:
  "stopLossPercent (config (new_RiskManager example_config)) \<noteq> NaN
   \<and> shouldClosePosition (new_RiskManager example_config)
        (example_position\<lparr>pnlPercent := Num (-11)\<rparr>)"
proof -
  have h: "stopLossPercent (config (new_RiskManager example_config)) \<noteq> NaN"
    by (simp add: new_RiskManager_def example_config_def)
  have e: "- stopLossPercent (config (new_RiskManager example_config)) - Num 1 = Num (-11)"
    by (simp add: new_RiskManager_def example_config_def minus_jsnum_def)
  show ?thesis
    using h shouldClosePosition_iff [of "new_RiskManager example_config" example_position]
    by (simp add: e)
qed

section \<open>Pricing deviation\<close>

text \<open>
  C1. The claim: with at least 5 bars the pricing deviation is
  \<open>clamp((quote - clamp(0.5 + trend*10, 0.3, 0.7)) * 2, -1, 1)\<close>. The code computes
  the clamped estimate and then subtracts the unclamped one: on four closes at 100
  followed by one at 110 (trend 0.1, estimate 1.5, clamped 0.7) and a quote of 0.9 it
  returns \<open>-1\<close>, where the claimed formula gives \<open>0.4\<close>.
\<close>

theorem calculatePricingDeviation_subtracts_unclamped:
  "5 \<le> length rising_bars
   \<and> calculatePricingDeviation (Num 110) rising_bars (Num 0.9) = Num (-1)
   \<and> spec_pricingDeviation rising_bars (Num 0.9) = Num 0.4"
  by (simp add: calculatePricingDeviation_def spec_pricingDeviation_def spec_clamp_def
      rising_bars_def bar_def slice_last_def js_nth_def minus_jsnum_def Let_def)

section \<open>Volatility\<close>

text \<open>
  C2. The claim: every factor lies within its bound on every bar sequence, flat ones
  included, and \<open>calculateVolatility\<close> always returns a number in \<open>[0, 1]\<close>. On ten
  equal bars at 100 the average true range is 0, so the volatility ratio is 0 and the
  normalisation divides 0 by 0: the result is NaN, which is not in \<open>[0, 1]\<close>.
\<close>

theorem calculateVolatility_flat_bars_NaN:
  "calculateVolatility default_config flat_bars = NaN
   \<and> \<not> (Num 0 \<le> calculateVolatility default_config flat_bars
          \<and> calculateVolatility default_config flat_bars \<le> Num 1)"
  by (simp add: calculateVolatility_def default_config_def flat_bars_def bar_def slice_last_def
      atr_of_def avgPrice_of_def js_sum_def js_length_def minus_jsnum_def Let_def
      eval_nat_numeral)

subsection \<open>What the factors can return\<close>

text \<open>The clamped factors are within their bounds or NaN.\<close>

lemma within_or_NaN_0: "0 \<le> b \<Longrightarrow> within_or_NaN b (Num 0)"
  by (simp add: within_or_NaN_def)

lemma clamp_range: "within_or_NaN 1 (Math_max (Num (-1)) (Math_min (Num 1) x))"
  by (cases x) (auto simp: within_or_NaN_def)

lemma momentum_range: "within_or_NaN 1 (calculateMomentum cfg klines)"
  by (auto simp: calculateMomentum_def Let_def clamp_range within_or_NaN_0 split: prod.splits)

lemma time_range: "within_or_NaN 0.3 (calculateTimeFactor default_config now klines t)"
proof -
  have s: "within_or_NaN 0.3 (y * Num 0.3)" if "within_or_NaN 1 y" for y
    using that by (cases y) (auto simp: within_or_NaN_def)
  show ?thesis
    by (auto simp: calculateTimeFactor_def Let_def default_config_def within_or_NaN_0
        intro!: s clamp_range)
qed

lemma pricing_range: "within_or_NaN 1 (calculatePricingDeviation currentPrice klines q)"
  by (simp add: calculatePricingDeviation_def Let_def clamp_range within_or_NaN_0)

section \<open>Volatility in double precision\<close>

subsection \<open>The rounding error of one operation\<close>

lemma pow2_powr: "pow2 e = 2 powr (of_int e)"
  by (simp add: pow2_def powr_real_of_int inverse_eq_divide)

lemma pow2_pos: "0 < pow2 e"
  by (simp add: pow2_powr)

lemma pow2_add: "pow2 (a + b) = pow2 a * pow2 b"
  by (simp add: pow2_powr powr_add)

lemma pow2_mono: "a \<le> b \<Longrightarrow> pow2 a \<le> pow2 b"
  by (simp add: pow2_powr)

lemma rne_near: "\<bar>of_int (rne y) - y\<bar> \<le> 1 / 2"
  unfolding rne_def Let_def by (auto simp: abs_if) linarith+

lemma floor_log2_bounds:
  assumes "0 < a"
  shows "pow2 \<lfloor>log 2 a\<rfloor> \<le> a" and "a < pow2 (\<lfloor>log 2 a\<rfloor> + 1)"
proof -
  have "2 powr (of_int \<lfloor>log 2 a\<rfloor>) \<le> a \<and> a < 2 powr (of_int (\<lfloor>log 2 a\<rfloor> + 1))"
    using floor_log_eq_powr_iff [of a 2 "\<lfloor>log 2 a\<rfloor>"] assms by simp
  then show "pow2 \<lfloor>log 2 a\<rfloor> \<le> a" and "a < pow2 (\<lfloor>log 2 a\<rfloor> + 1)"
    by (simp_all add: pow2_powr)
qed

lemma floor_log2_ge:
  assumes "pow2 k \<le> a"
  shows "k \<le> \<lfloor>log 2 a\<rfloor>"
proof -
  have "0 < a"
    using assms pow2_pos [of k] by linarith
  then have "of_int k \<le> log 2 a"
    using assms by (simp add: le_log_iff pow2_powr)
  then show ?thesis
    by (simp add: le_floor_iff)
qed

lemma floor_log2_eq:
  assumes "pow2 e \<le> a" and "a < pow2 (e + 1)"
  shows "\<lfloor>log 2 a\<rfloor> = e"
proof -
  have "0 < a"
    using assms(1) pow2_pos [of e] by linarith
  then show ?thesis
    using assms floor_log_eq_powr_iff [of a 2 e] by (simp add: pow2_powr)
qed

lemma exponent2_eq:
  assumes "0 < a"
  shows "exponent2 a = \<lfloor>log 2 a\<rfloor>"
proof (cases "1 \<le> a")
  case True
  define n where "n = \<lfloor>a\<rfloor>"
  define b where "b = bitlen n"
  have n1: "1 \<le> n"
    using True by (simp add: n_def le_floor_iff)
  then have bnd: "2 ^ nat (b - 1) \<le> n" "n < 2 ^ nat b"
    using bitlen_bounds [of n] by (simp_all add: b_def)
  have b1: "1 \<le> b"
    using n1 by (simp add: b_def bitlen_alt_def)
  have lo: "pow2 (b - 1) \<le> a"
  proof -
    have "(2::real) ^ nat (b - 1) \<le> of_int n"
      using bnd(1) by (metis of_int_le_iff of_int_numeral of_int_power)
    also have "\<dots> \<le> a"
      by (simp add: n_def)
    finally show ?thesis
      using b1 by (simp add: pow2_def)
  qed
  have hi: "a < pow2 (b - 1 + 1)"
  proof -
    have "a < of_int n + 1"
      by (simp add: n_def)
    also have "of_int n + 1 \<le> (2::real) ^ nat b"
    proof -
      have "n + 1 \<le> 2 ^ nat b"
        using bnd(2) by simp
      then have "(of_int (n + 1) :: real) \<le> of_int (2 ^ nat b)"
        by (simp only: of_int_le_iff)
      then show ?thesis
        by simp
    qed
    finally show ?thesis
      using b1 by (simp add: pow2_def)
  qed
  have "\<lfloor>log 2 a\<rfloor> = b - 1"
    using lo hi by (rule floor_log2_eq)
  then show ?thesis
    using True by (simp add: exponent2_def n_def b_def)
next
  case False
  define n where "n = \<lceil>1 / a\<rceil>"
  define b where "b = bitlen (n - 1)"
  have inv: "1 < 1 / a"
    using False assms by simp
  then have n2: "2 \<le> n"
    by (simp add: n_def)
  then have bnd: "2 ^ nat (b - 1) \<le> n - 1" "n - 1 < 2 ^ nat b"
    using bitlen_bounds [of "n - 1"] by (simp_all add: b_def)
  have b1: "1 \<le> b"
    using n2 by (simp add: b_def bitlen_alt_def)
  have up: "1 / a \<le> (2::real) ^ nat b"
  proof -
    have "1 / a \<le> of_int n"
      by (simp add: n_def)
    also have "(of_int n :: real) \<le> of_int (2 ^ nat b)"
      using bnd(2) by (simp only: of_int_le_iff)
    finally show ?thesis
      by simp
  qed
  have down: "(2::real) ^ nat (b - 1) < 1 / a"
  proof -
    have "(of_int (2 ^ nat (b - 1)) :: real) \<le> of_int (n - 1)"
      using bnd(1) by (simp only: of_int_le_iff)
    moreover have "(of_int (n - 1) :: real) < 1 / a"
      unfolding n_def by (simp add: ceiling_correct)
    ultimately show ?thesis
      by simp
  qed
  have lo: "pow2 (- b) \<le> a"
    using up assms b1 by (simp add: pow2_def field_simps)
  have hi: "a < pow2 (- b + 1)"
  proof (cases "b = 1")
    case True
    then show ?thesis
      using False by (simp add: pow2_def)
  next
    case False
    then have "nat (- (- b + 1)) = nat (b - 1)" and "\<not> 0 \<le> - b + 1"
      using b1 by simp_all
    then show ?thesis
      using down assms by (simp add: pow2_def field_simps)
  qed
  have "\<lfloor>log 2 a\<rfloor> = - b"
    using lo hi by (rule floor_log2_eq)
  then show ?thesis
    using False by (simp add: exponent2_def n_def b_def)
qed

lemma binary64_normal:
  assumes lo: "pow2 (- 1022) \<le> \<bar>x\<bar>" and hi: "\<bar>x\<bar> \<le> pow2 1023"
  shows "\<exists>d. binary64 x = Num (x * (1 + d)) \<and> \<bar>d\<bar> \<le> pow2 (- 53)"
proof -
  define e where "e = \<lfloor>log 2 \<bar>x\<bar>\<rfloor>"
  define ulp where "ulp = pow2 (e - 52)"
  define r where "r = of_int (rne (\<bar>x\<bar> / ulp)) * ulp"
  have xpos: "0 < \<bar>x\<bar>"
    using lo pow2_pos [of "- 1022"] by linarith
  then have x0: "x \<noteq> 0"
    by simp
  have e_lo: "- 1022 \<le> e"
    unfolding e_def using lo by (rule floor_log2_ge)
  have below: "pow2 e \<le> \<bar>x\<bar>"
    unfolding e_def using xpos by (rule floor_log2_bounds)
  have ulp_pos: "0 < ulp"
    by (simp add: ulp_def pow2_pos)
  have "\<bar>of_int (rne (\<bar>x\<bar> / ulp)) - \<bar>x\<bar> / ulp\<bar> \<le> 1 / 2"
    by (rule rne_near)
  then have "\<bar>of_int (rne (\<bar>x\<bar> / ulp)) - \<bar>x\<bar> / ulp\<bar> * ulp \<le> 1 / 2 * ulp"
    using ulp_pos by (simp add: mult_right_mono)
  moreover have "\<bar>of_int (rne (\<bar>x\<bar> / ulp)) - \<bar>x\<bar> / ulp\<bar> * ulp = \<bar>r - \<bar>x\<bar>\<bar>"
  proof -
    have "(of_int (rne (\<bar>x\<bar> / ulp)) - \<bar>x\<bar> / ulp) * ulp = r - \<bar>x\<bar>"
      using ulp_pos by (simp add: r_def left_diff_distrib)
    then have "\<bar>r - \<bar>x\<bar>\<bar> = \<bar>of_int (rne (\<bar>x\<bar> / ulp)) - \<bar>x\<bar> / ulp\<bar> * \<bar>ulp\<bar>"
      by (simp only: abs_mult [symmetric])
    then show ?thesis
      using ulp_pos by simp
  qed
  ultimately have near: "\<bar>r - \<bar>x\<bar>\<bar> \<le> ulp / 2"
    by simp
  have "ulp / 2 = pow2 e * pow2 (- 53)"
    using pow2_add [of e "- 53"] pow2_add [of "e - 53" 1] by (simp add: ulp_def pow2_def)
  also have "\<dots> \<le> \<bar>x\<bar> * pow2 (- 53)"
    using below pow2_pos [of "- 53"] by (simp add: mult_right_mono)
  finally have half: "ulp / 2 \<le> \<bar>x\<bar> * pow2 (- 53)" .
  have rel: "\<bar>r - \<bar>x\<bar>\<bar> \<le> \<bar>x\<bar> * pow2 (- 53)"
    using near half by linarith
  have "r \<le> \<bar>x\<bar> * (1 + pow2 (- 53))"
    using rel by (simp add: algebra_simps abs_le_iff)
  also have "\<dots> \<le> pow2 1023 * (1 + pow2 (- 53))"
    using hi pow2_pos [of "- 53"] by (simp add: mult_right_mono)
  also have "\<dots> < pow2 1024"
    using pow2_add [of 1023 1] pow2_pos [of 1023] by (simp add: pow2_def)
  finally have no_overflow: "\<not> pow2 1024 \<le> r"
    by simp
  have m: "max e (- 1022) = e"
    using e_lo by simp
  have ex: "exponent2 \<bar>x\<bar> = e"
    unfolding e_def using xpos by (rule exponent2_eq)
  have val: "binary64 x = Num (if 0 < x then r else - r)"
    unfolding binary64_def Let_def ex m ulp_def [symmetric] r_def [symmetric]
    using x0 no_overflow by simp
  define d where "d = ((if 0 < x then r else - r) - x) / x"
  have "x * (1 + d) = (if 0 < x then r else - r)"
    using x0 by (simp add: d_def field_simps)
  moreover have "\<bar>d\<bar> \<le> pow2 (- 53)"
  proof -
    have "\<bar>(if 0 < x then r else - r) - x\<bar> = \<bar>r - \<bar>x\<bar>\<bar>"
      using x0 by (auto simp: abs_if)
    then have "\<bar>d\<bar> = \<bar>r - \<bar>x\<bar>\<bar> / \<bar>x\<bar>"
      by (simp add: d_def)
    also have "\<dots> \<le> pow2 (- 53)"
      using rel xpos by (simp add: pos_divide_le_eq mult.commute)
    finally show ?thesis .
  qed
  ultimately have "binary64 x = Num (x * (1 + d)) \<and> \<bar>d\<bar> \<le> pow2 (- 53)"
    using val by simp
  then show ?thesis ..
qed

lemma pow2_vals: "pow2 (- 53) = 1 / 2 ^ 53" "pow2 (- 51) = 1 / 2 ^ 51"
  "pow2 (- 1000) = 1 / 2 ^ 1000" "pow2 1000 = 2 ^ 1000"
  "pow2 (- 1022) = 1 / 2 ^ 1022" "pow2 1023 = 2 ^ 1023"
  by (simp_all add: pow2_def)

lemma calculateVolatility64_near:
  assumes len: "volatilityPeriod cfg \<le> length klines"
    and v: "volatility64 cfg klines = Num v"
    and m: "highVolatilityMultiplier cfg = Num m"
    and vm_lo: "pow2 (- 1022) \<le> \<bar>v * m\<bar>" and vm_hi: "\<bar>v * m\<bar> \<le> pow2 1023"
    and m_lo: "pow2 (- 1000) \<le> \<bar>m\<bar>" and m_hi: "\<bar>m\<bar> \<le> pow2 1000"
  shows "\<exists>q. calculateVolatility64 cfg klines = Math_min (Num 1) (Num q)
             \<and> \<bar>q - 1 / m\<bar> \<le> pow2 (- 51) / \<bar>m\<bar>"
proof -
  have vm0: "v * m \<noteq> 0"
    using vm_lo pow2_pos [of "- 1022"] by auto
  then have v0: "v \<noteq> 0" and m0: "m \<noteq> 0"
    by auto
  obtain d1 where w: "binary64 (v * m) = Num (v * m * (1 + d1))" and d1: "\<bar>d1\<bar> \<le> pow2 (- 53)"
    using binary64_normal [OF vm_lo vm_hi] by blast
  have u: "pow2 (- 53) \<le> 1 / 2"
    by (simp add: pow2_def)
  have p1: "1 / 2 \<le> 1 + d1" "1 + d1 \<le> 2"
    using d1 u by (auto simp: abs_le_iff)
  define t where "t = v / (v * m * (1 + d1))"
  have t_eq: "t = 1 / (m * (1 + d1))"
    using v0 by (simp add: t_def)
  have w0: "v * m * (1 + d1) \<noteq> 0"
    using vm0 p1 by auto
  have quot: "Num v / Num (v * m * (1 + d1)) = Num t"
    using w0 by (simp add: t_def)
  have abs_t: "\<bar>t\<bar> = 1 / (\<bar>m\<bar> * (1 + d1))"
    using p1 by (simp add: t_eq abs_mult)
  have t_lo: "pow2 (- 1022) \<le> \<bar>t\<bar>"
  proof -
    have "\<bar>m\<bar> * (1 + d1) \<le> 2 ^ 1000 * 2"
      using m_hi p1 m0 by (intro mult_mono) (simp_all add: pow2_vals)
    moreover have "0 < \<bar>m\<bar> * (1 + d1)"
      using m0 p1 by simp
    ultimately have "1 / (2 ^ 1000 * 2) \<le> 1 / (\<bar>m\<bar> * (1 + d1))"
      by (intro divide_left_mono) simp_all
    moreover have "pow2 (- 1022) \<le> 1 / (2 ^ 1000 * 2)"
      by (simp add: pow2_vals field_simps)
    ultimately show ?thesis
      unfolding abs_t by linarith
  qed
  have t_hi: "\<bar>t\<bar> \<le> pow2 1023"
  proof -
    have "1 / 2 ^ 1000 * (1 / 2) \<le> \<bar>m\<bar> * (1 + d1)"
      using m_lo p1 by (intro mult_mono) (simp_all add: pow2_vals)
    then have "1 / (\<bar>m\<bar> * (1 + d1)) \<le> 1 / (1 / 2 ^ 1000 * (1 / 2))"
      by (intro divide_left_mono) (simp_all add: field_simps)
    moreover have "1 / (1 / 2 ^ 1000 * (1 / 2)) \<le> pow2 1023"
      by (simp add: pow2_vals)
    ultimately show ?thesis
      unfolding abs_t by linarith
  qed
  obtain d2 where q: "binary64 t = Num (t * (1 + d2))" and d2: "\<bar>d2\<bar> \<le> pow2 (- 53)"
    using binary64_normal [OF t_lo t_hi] by blast
  have e1: "Num v * Num m = Num (v * m)"
    by simp
  have e2: "rounded (Num (v * m)) = Num (v * m * (1 + d1))"
    by (simp add: rounded_def w)
  have e3: "rounded (Num t) = Num (t * (1 + d2))"
    by (simp add: rounded_def q)
  have enough: "(length klines < volatilityPeriod cfg) = False"
    using len by simp
  have val: "calculateVolatility64 cfg klines = Math_min (Num 1) (Num (t * (1 + d2)))"
    by (simp only: calculateVolatility64_def Let_def enough if_False v m e1 e2 quot e3)
  have nz: "1 + d1 \<noteq> 0"
    using p1 by simp
  have "t * (1 + d2) - 1 / m = (1 / m) * ((d2 - d1) / (1 + d1))"
    unfolding t_eq using m0 nz by (simp add: divide_simps)
  then have "\<bar>t * (1 + d2) - 1 / m\<bar> = (1 / \<bar>m\<bar>) * (\<bar>d2 - d1\<bar> / (1 + d1))"
    using p1 by (simp add: abs_mult)
  also have "\<dots> \<le> (1 / \<bar>m\<bar>) * pow2 (- 51)"
  proof (intro mult_left_mono)
    have "\<bar>d2 - d1\<bar> \<le> 2 * pow2 (- 53)"
      using d1 d2 by linarith
    then have "\<bar>d2 - d1\<bar> / (1 + d1) \<le> 2 * pow2 (- 53) / (1 / 2)"
      using p1 by (intro frac_le) simp_all
    also have "\<dots> = pow2 (- 51)"
      by (simp add: pow2_vals)
    finally show "\<bar>d2 - d1\<bar> / (1 + d1) \<le> pow2 (- 51)" .
    show "0 \<le> 1 / \<bar>m\<bar>"
      by simp
  qed
  finally have "\<bar>t * (1 + d2) - 1 / m\<bar> \<le> pow2 (- 51) / \<bar>m\<bar>"
    by simp
  with val show ?thesis
    by blast
qed

subsection \<open>Two bar sequences, evaluated\<close>

lemma rne_of_int: "rne (of_int j) = j"
  by (simp add: rne_def)

lemma binary64_eval:
  assumes "0 < x" and "pow2 e \<le> x" and "x < pow2 (e + 1)" and "- 1022 \<le> e"
  shows "binary64 x =
     (if pow2 1024 \<le> of_int (rne (x / pow2 (e - 52))) * pow2 (e - 52) then PosInf
      else Num (of_int (rne (x / pow2 (e - 52))) * pow2 (e - 52)))"
proof -
  have "\<lfloor>log 2 \<bar>x\<bar>\<rfloor> = e"
    using assms by (simp add: floor_log2_eq)
  then have "exponent2 \<bar>x\<bar> = e"
    using assms(1) by (simp add: exponent2_eq)
  then show ?thesis
    using assms by (simp add: binary64_def Let_def)
qed

lemma binary64_uminus: "binary64 (- x) = - binary64 x"
  by (simp add: binary64_def Let_def)

lemma binary64_pos_int:
  assumes "0 < n" and "n < 2 ^ 53"
  shows "binary64 (of_int n) = Num (of_int n)"
proof -
  define e where "e = \<lfloor>log 2 (of_int n :: real)\<rfloor>"
  have pos: "0 < (of_int n :: real)"
    using assms by simp
  have "pow2 0 \<le> of_int n"
    using assms by (simp add: pow2_def)
  then have e0: "0 \<le> e"
    unfolding e_def by (rule floor_log2_ge)
  have "pow2 e \<le> of_int n"
    unfolding e_def using pos by (rule floor_log2_bounds)
  moreover have "(of_int n :: real) < pow2 53"
    using assms by (simp add: pow2_def)
  ultimately have "pow2 e < pow2 53"
    by linarith
  then have e52: "e \<le> 52"
    using pow2_mono [of 53 e] by (cases "53 \<le> e") auto
  define k where "k = nat (52 - e)"
  have ulp: "pow2 (e - 52) = 1 / 2 ^ k"
    using e52 by (auto simp: pow2_def k_def)
  have "of_int n / pow2 (e - 52) = (of_int (n * 2 ^ k) :: real)"
    by (simp add: ulp)
  then have r: "of_int (rne (of_int n / pow2 (e - 52))) * pow2 (e - 52) = (of_int n :: real)"
    by (simp only: rne_of_int) (simp add: ulp)
  have small: "\<not> pow2 1024 \<le> (of_int n :: real)"
    using \<open>(of_int n :: real) < pow2 53\<close> pow2_mono [of 53 1024] by simp
  have m: "max e (- 1022) = e"
    using e0 by simp
  have ex: "exponent2 \<bar>of_int n\<bar> = e"
    unfolding e_def using pos by (simp add: exponent2_eq)
  have nz: "(of_int n :: real) \<noteq> 0"
    using pos by simp
  have ab: "\<bar>of_int n :: real\<bar> = of_int n"
    using pos by simp
  show ?thesis
    unfolding binary64_def Let_def ex m
    using pos small nz by (simp only: ab r if_False if_True)
qed

lemma binary64_numeral:
  "(numeral k :: int) < 2 ^ 53 \<Longrightarrow> binary64 (numeral k) = Num (numeral k)"
  using binary64_pos_int [of "numeral k"] by simp

lemma binary64_neg_numeral:
  "(numeral k :: int) < 2 ^ 53 \<Longrightarrow> binary64 (- numeral k) = Num (- numeral k)"
  by (simp add: binary64_uminus binary64_numeral)

lemma binary64_0: "binary64 0 = Num 0"
  by (simp add: binary64_def)

lemma binary64_1: "binary64 1 = Num 1"
  using binary64_pos_int [of 1] by simp

lemma binary64_minus_1: "binary64 (- 1) = Num (- 1)"
  by (simp add: binary64_uminus binary64_1)

lemmas binary64_0_1 = binary64_0 binary64_1 binary64_minus_1

lemmas b64_exact = binary64_numeral binary64_neg_numeral binary64_0_1

lemma calm_atr64: "atr_of64 (slice_last 10 calm_bars) = Num 2"
  by (simp add: calm_bars_def bar_def slice_last_def atr_of64_def rounded_def js_length_def
      minus_jsnum_def Let_def eval_nat_numeral b64_exact)

lemma calm_avg64: "avgPrice_of64 (slice_last 10 calm_bars) = Num 100"
  by (simp add: calm_bars_def bar_def slice_last_def avgPrice_of64_def rounded_def js_length_def
      eval_nat_numeral b64_exact)

lemma wild_atr64: "atr_of64 (slice_last 10 wild_bars) = Num 100"
  by (simp add: wild_bars_def bar_def slice_last_def atr_of64_def rounded_def js_length_def
      minus_jsnum_def Let_def eval_nat_numeral b64_exact)

lemma wild_avg64: "avgPrice_of64 (slice_last 10 wild_bars) = Num 100"
  by (simp add: wild_bars_def bar_def slice_last_def avgPrice_of64_def rounded_def js_length_def
      eval_nat_numeral b64_exact)

lemma round_fiftieth: "binary64 (1 / 50) = Num (5764607523034235 / 2 ^ 58)"
  using binary64_eval [of "1 / 50" "- 6"] by (simp add: pow2_def rne_def)

lemma calm_volatility64:
  "volatility64 default_config calm_bars = Num (5764607523034235 / 2 ^ 58)"
  by (simp add: volatility64_def default_config_def calm_atr64 calm_avg64 rounded_def
      round_fiftieth)

lemma wild_volatility64: "volatility64 default_config wild_bars = Num 1"
  by (simp add: volatility64_def default_config_def wild_atr64 wild_avg64 rounded_def b64_exact)

lemma calm_product:
  "binary64 (5764607523034235 / 2 ^ 58 * 1.5) = Num (1080863910568919 / 2 ^ 55)"
  using binary64_eval [of "5764607523034235 / 2 ^ 58 * 1.5" "- 6"]
  by (simp add: pow2_def rne_def)

lemma calm_quotient:
  "binary64 (5764607523034235 / 2 ^ 58 / (1080863910568919 / 2 ^ 55))
     = Num (6004799503160662 / 2 ^ 53)"
  using binary64_eval [of "5764607523034235 / 2 ^ 58 / (1080863910568919 / 2 ^ 55)" "- 1"]
  by (simp add: pow2_def rne_def)

lemma wild_product: "binary64 (1 * 1.5) = Num 1.5"
  using binary64_eval [of "1.5" 0] by (simp add: pow2_def rne_def)

lemma wild_quotient: "binary64 (1 / 1.5) = Num (6004799503160661 / 2 ^ 53)"
  using binary64_eval [of "1 / 1.5" "- 1"] by (simp add: pow2_def rne_def)

lemma calm_result: "calculateVolatility64 default_config calm_bars = Num (6004799503160662 / 2 ^ 53)"
proof -
  have len: "(length calm_bars < volatilityPeriod default_config) = False"
    by (simp add: calm_bars_def default_config_def)
  have m: "highVolatilityMultiplier default_config = Num 1.5"
    by (simp add: default_config_def)
  have e1: "Num (5764607523034235 / 2 ^ 58) * Num 1.5 = Num (5764607523034235 / 2 ^ 58 * 1.5)"
    by simp
  have e2: "rounded (Num (5764607523034235 / 2 ^ 58 * 1.5)) = Num (1080863910568919 / 2 ^ 55)"
    by (simp only: rounded_def jsnum.case calm_product)
  have e3: "Num (5764607523034235 / 2 ^ 58) / Num (1080863910568919 / 2 ^ 55)
              = Num (5764607523034235 / 2 ^ 58 / (1080863910568919 / 2 ^ 55))"
    by simp
  have e4: "rounded (Num (5764607523034235 / 2 ^ 58 / (1080863910568919 / 2 ^ 55)))
              = Num (6004799503160662 / 2 ^ 53)"
    by (simp only: rounded_def jsnum.case calm_quotient)
  have e5: "Math_min (Num 1) (Num (6004799503160662 / 2 ^ 53)) = Num (6004799503160662 / 2 ^ 53)"
    by simp
  show ?thesis
    by (simp only: calculateVolatility64_def Let_def len if_False calm_volatility64 m e1 e2 e3 e4 e5)
qed

lemma wild_result: "calculateVolatility64 default_config wild_bars = Num (6004799503160661 / 2 ^ 53)"
proof -
  have len: "(length wild_bars < volatilityPeriod default_config) = False"
    by (simp add: wild_bars_def default_config_def)
  have m: "highVolatilityMultiplier default_config = Num 1.5"
    by (simp add: default_config_def)
  have e1: "Num 1 * Num 1.5 = Num (1 * 1.5)"
    by simp
  have e2: "rounded (Num (1 * 1.5)) = Num 1.5"
    by (simp only: rounded_def jsnum.case wild_product)
  have e3: "Num 1 / Num 1.5 = Num (1 / 1.5)"
    by simp
  have e4: "rounded (Num (1 / 1.5)) = Num (6004799503160661 / 2 ^ 53)"
    by (simp only: rounded_def jsnum.case wild_quotient)
  have e5: "Math_min (Num 1) (Num (6004799503160661 / 2 ^ 53)) = Num (6004799503160661 / 2 ^ 53)"
    by simp
  show ?thesis
    by (simp only: calculateVolatility64_def Let_def len if_False wild_volatility64 m e1 e2 e3 e4 e5)
qed

text \<open>
  C10. The claim: on any two bar sequences with at least \<open>volatilityPeriod\<close> bars, a
  nonzero average true range and a nonzero average close, \<open>calculateVolatility\<close> returns
  the same value, exactly \<open>min(1, 1 / highVolatilityMultiplier)\<close>. The quotient
  \<open>volatility / (volatility * multiplier)\<close> is rounded twice, and the result keeps a
  trace of the volatility in its last place: under the default multiplier ten bars
  101/99/100 give \<open>6004799503160662 / 2^53\<close> (0.6666666666666667) and ten bars
  150/50/100 give \<open>6004799503160661 / 2^53\<close> (0.6666666666666666), which is
  \<open>min(1, 1 / 1.5)\<close>.
\<close>

theorem calculateVolatility64_last_place:
  "10 \<le> length calm_bars \<and> 10 \<le> length wild_bars
   \<and> atr_of64 (slice_last 10 calm_bars) = Num 2
   \<and> avgPrice_of64 (slice_last 10 calm_bars) = Num 100
   \<and> atr_of64 (slice_last 10 wild_bars) = Num 100
   \<and> avgPrice_of64 (slice_last 10 wild_bars) = Num 100
   \<and> calculateVolatility64 default_config calm_bars = Num (6004799503160662 / 2 ^ 53)
   \<and> calculateVolatility64 default_config wild_bars = Num (6004799503160661 / 2 ^ 53)
   \<and> calculateVolatility64 default_config calm_bars
       \<noteq> calculateVolatility64 default_config wild_bars
   \<and> calculateVolatility64 default_config calm_bars
       \<noteq> Math_min (Num 1) (rounded (Num 1 / highVolatilityMultiplier default_config))"
proof -
  have m: "highVolatilityMultiplier default_config = Num 1.5"
    by (simp add: default_config_def)
  have e3: "Num 1 / Num 1.5 = Num (1 / 1.5)"
    by simp
  have e4: "rounded (Num (1 / 1.5)) = Num (6004799503160661 / 2 ^ 53)"
    by (simp only: rounded_def jsnum.case wild_quotient)
  have "rounded (Num 1 / highVolatilityMultiplier default_config)
          = Num (6004799503160661 / 2 ^ 53)"
    by (simp only: m e3 e4)
  then have ne2: "calculateVolatility64 default_config calm_bars
       \<noteq> Math_min (Num 1) (rounded (Num 1 / highVolatilityMultiplier default_config))"
    by (simp add: calm_result)
  have len: "10 \<le> length calm_bars" "10 \<le> length wild_bars"
    by (simp_all add: calm_bars_def wild_bars_def)
  have ne1: "calculateVolatility64 default_config calm_bars
       \<noteq> calculateVolatility64 default_config wild_bars"
    by (simp add: calm_result wild_result)
  from len calm_atr64 calm_avg64 wild_atr64 wild_avg64 calm_result wild_result ne1 ne2
  show ?thesis
    by blast
qed

text \<open>
  C10, as amended. On any two bar sequences with at least \<open>volatilityPeriod\<close> bars
  whose volatility ratio \<open>v\<close> (average true range over average close) and the
  multiplier \<open>m\<close> keep the product \<open>v * m\<close> in the normal range of the doubles, with
  \<open>2^-1000 \<le> |m| \<le> 2^1000\<close>, \<open>calculateVolatility\<close> returns \<open>min(1, q)\<close> with
  \<open>q\<close> within \<open>2^-51 / |m|\<close> of \<open>1 / m\<close>: the two results agree up to \<open>2^-50 / |m|\<close>,
  whatever the dispersion of the bars, and need not be equal.
\<close>

theorem calculateVolatility64_near_reciprocal:
  assumes "volatilityPeriod cfg \<le> length klines1"
    and "volatility64 cfg klines1 = Num v1"
    and "pow2 (- 1022) \<le> \<bar>v1 * m\<bar>" and "\<bar>v1 * m\<bar> \<le> pow2 1023"
    and "volatilityPeriod cfg \<le> length klines2"
    and "volatility64 cfg klines2 = Num v2"
    and "pow2 (- 1022) \<le> \<bar>v2 * m\<bar>" and "\<bar>v2 * m\<bar> \<le> pow2 1023"
    and "highVolatilityMultiplier cfg = Num m"
    and "pow2 (- 1000) \<le> \<bar>m\<bar>" and "\<bar>m\<bar> \<le> pow2 1000"
  shows "\<exists>q1 q2. calculateVolatility64 cfg klines1 = Math_min (Num 1) (Num q1)
                 \<and> calculateVolatility64 cfg klines2 = Math_min (Num 1) (Num q2)
                 \<and> \<bar>q1 - 1 / m\<bar> \<le> pow2 (- 51) / \<bar>m\<bar>
                 \<and> \<bar>q2 - 1 / m\<bar> \<le> pow2 (- 51) / \<bar>m\<bar>
                 \<and> \<bar>q1 - q2\<bar> \<le> pow2 (- 50) / \<bar>m\<bar>"
proof -
  obtain q1 where q1: "calculateVolatility64 cfg klines1 = Math_min (Num 1) (Num q1)"
      "\<bar>q1 - 1 / m\<bar> \<le> pow2 (- 51) / \<bar>m\<bar>"
    using calculateVolatility64_near [OF assms(1,2,9,3,4,10,11)] by blast
  obtain q2 where q2: "calculateVolatility64 cfg klines2 = Math_min (Num 1) (Num q2)"
      "\<bar>q2 - 1 / m\<bar> \<le> pow2 (- 51) / \<bar>m\<bar>"
    using calculateVolatility64_near [OF assms(5,6,9,7,8,10,11)] by blast
  have "pow2 (- 50) / \<bar>m\<bar> = pow2 (- 51) / \<bar>m\<bar> + pow2 (- 51) / \<bar>m\<bar>"
    by (simp add: pow2_def)
  then have "\<bar>q1 - q2\<bar> \<le> pow2 (- 50) / \<bar>m\<bar>"
    using q1(2) q2(2) by linarith
  with q1 q2 show ?thesis
    by blast
qed

theorem calculateVolatility64_near_reciprocal_witness:
  "volatilityPeriod default_config \<le> length calm_bars
   \<and> volatility64 default_config calm_bars = Num (5764607523034235 / 2 ^ 58)
   \<and> pow2 (- 1022) \<le> \<bar>5764607523034235 / 2 ^ 58 * 1.5\<bar>
   \<and> \<bar>5764607523034235 / 2 ^ 58 * 1.5\<bar> \<le> pow2 1023
   \<and> volatilityPeriod default_config \<le> length wild_bars
   \<and> volatility64 default_config wild_bars = Num 1
   \<and> pow2 (- 1022) \<le> \<bar>1 * 1.5\<bar> \<and> \<bar>1 * 1.5\<bar> \<le> pow2 1023
   \<and> highVolatilityMultiplier default_config = Num 1.5
   \<and> pow2 (- 1000) \<le> \<bar>1.5\<bar> \<and> \<bar>1.5\<bar> \<le> pow2 1000
   \<and> (\<exists>q1 q2. calculateVolatility64 default_config calm_bars = Math_min (Num 1) (Num q1)
                \<and> calculateVolatility64 default_config wild_bars = Math_min (Num 1) (Num q2)
                \<and> \<bar>q1 - 1 / 1.5\<bar> \<le> pow2 (- 51) / \<bar>1.5\<bar>
                \<and> \<bar>q2 - 1 / 1.5\<bar> \<le> pow2 (- 51) / \<bar>1.5\<bar>
                \<and> \<bar>q1 - q2\<bar> \<le> pow2 (- 50) / \<bar>1.5\<bar>)"
proof -
  have h1: "volatilityPeriod default_config \<le> length calm_bars"
    and h5: "volatilityPeriod default_config \<le> length wild_bars"
    by (simp_all add: default_config_def calm_bars_def wild_bars_def)
  have h3: "pow2 (- 1022) \<le> \<bar>5764607523034235 / 2 ^ 58 * 1.5\<bar>"
    and h4: "\<bar>5764607523034235 / 2 ^ 58 * 1.5\<bar> \<le> pow2 1023"
    and h7: "pow2 (- 1022) \<le> \<bar>1 * 1.5\<bar>" and h8: "\<bar>1 * 1.5\<bar> \<le> pow2 1023"
    and h10: "pow2 (- 1000) \<le> \<bar>1.5\<bar>" and h11: "\<bar>1.5\<bar> \<le> pow2 1000"
    by (simp_all add: pow2_def)
  have h9: "highVolatilityMultiplier default_config = Num 1.5"
    by (simp add: default_config_def)
  note r = calculateVolatility64_near_reciprocal
             [OF h1 calm_volatility64 h3 h4 h5 wild_volatility64 h7 h8 h9 h10 h11]
  from h1 calm_volatility64 h3 h4 h5 wild_volatility64 h7 h8 h9 h10 h11 r show ?thesis
    by blast
qed

section \<open>Position size\<close>

text \<open>
  C3. The claim: \<open>50 \<le> s \<le> 500\<close> and \<open>s \<le> 0.05 * liquidity\<close> for every input. With
  a liquidity of 100 the cap is 5, and the floor of 50, applied last, wins; with a
  confidence that is NaN the size is NaN, which no comparison bounds.
\<close>

theorem calculatePositionSize_floor_beats_liquidity_cap:
  "calculatePositionSize (Num 0.5) (Num 100) (Num 0.8) (Num 0.8) = Num 50
   \<and> \<not> (calculatePositionSize (Num 0.5) (Num 100) (Num 0.8) (Num 0.8) \<le> Num 0.05 * Num 100)
   \<and> \<not> (Num 50 \<le> calculatePositionSize (Num 0.5) (Num 10000) NaN (Num 0.8))"
  by (simp add: calculatePositionSize_def Let_def)

text \<open>
  C3, as amended. For a confidence and a signal strength between 0 and 1 (their
  declared range) and a liquidity that is not NaN, the size is between 50 and 500; it
  is at most 5 percent of the liquidity whenever those 5 percent are at least the
  floor of 50.
\<close>

theorem calculatePositionSize_bounds:
  "Num 0 \<le> confidence \<Longrightarrow> confidence \<le> Num 1 \<Longrightarrow>
   Num 0 \<le> signalStrength \<Longrightarrow> signalStrength \<le> Num 1 \<Longrightarrow> liquidity \<noteq> NaN \<Longrightarrow>
   Num 50 \<le> calculatePositionSize probability liquidity confidence signalStrength
   \<and> calculatePositionSize probability liquidity confidence signalStrength \<le> Num 500
   \<and> (Num 50 \<le> liquidity * Num 0.05 \<longrightarrow>
        calculatePositionSize probability liquidity confidence signalStrength
          \<le> liquidity * Num 0.05)"
  by (cases liquidity; cases confidence; cases signalStrength)
     (auto simp: calculatePositionSize_def Let_def)

theorem calculatePositionSize_bounds_witness:
  "Num 0 \<le> Num 0.9 \<and> Num 0.9 \<le> Num 1 \<and> Num 0 \<le> Num 0.8 \<and> Num 0.8 \<le> Num 1
   \<and> Num 2000 \<noteq> NaN
   \<and> Num 50 \<le> Num 2000 * Num 0.05
   \<and> calculatePositionSize (Num 0.5) (Num 2000) (Num 0.9) (Num 0.8) = Num 72
   \<and> Num 50 \<le> calculatePositionSize (Num 0.5) (Num 2000) (Num 0.9) (Num 0.8)
   \<and> calculatePositionSize (Num 0.5) (Num 2000) (Num 0.9) (Num 0.8) \<le> Num 500
   \<and> calculatePositionSize (Num 0.5) (Num 2000) (Num 0.9) (Num 0.8) \<le> Num 2000 * Num 0.05"
proof -
  have c1: "Num 0 \<le> Num 0.9" and c2: "Num 0.9 \<le> Num 1"
    and s1: "Num 0 \<le> Num 0.8" and s2: "Num 0.8 \<le> Num 1"
    and l: "Num 2000 \<noteq> NaN" and h4: "Num 50 \<le> Num 2000 * Num 0.05"
    by simp_all
  have v: "calculatePositionSize (Num 0.5) (Num 2000) (Num 0.9) (Num 0.8) = Num 72"
    by (simp add: calculatePositionSize_def Let_def)
  from calculatePositionSize_bounds [OF c1 c2 s1 s2 l, of "Num 0.5"] h4
  have "Num 50 \<le> calculatePositionSize (Num 0.5) (Num 2000) (Num 0.9) (Num 0.8)"
    and "calculatePositionSize (Num 0.5) (Num 2000) (Num 0.9) (Num 0.8) \<le> Num 500"
    and "calculatePositionSize (Num 0.5) (Num 2000) (Num 0.9) (Num 0.8) \<le> Num 2000 * Num 0.05"
    by blast+
  with c1 c2 s1 s2 l h4 v show ?thesis
    by blast
qed

section \<open>Time factor and the wall clock\<close>

text \<open>
  C8. The claim: the factors are functions of the bars, the reference price, the quote,
  the 24h volume and \<open>marketStartTime\<close> alone, independent of the wall clock. On the
  same bars and the same start time, \<open>calculateTimeFactor\<close> returns 0.3 one minute
  after the start and 0 ten minutes after it.
\<close>

theorem calculateTimeFactor_depends_on_clock:
  "calculateTimeFactor default_config (Num 1060000) rising_bars (Num 1000000) = Num 0.3
   \<and> calculateTimeFactor default_config (Num 1600000) rising_bars (Num 1000000) = Num 0"
  by (simp add: calculateTimeFactor_def default_config_def rising_bars_def bar_def slice_last_def
      js_nth_def minus_jsnum_def Let_def)

text \<open>
  C8, as amended. Momentum, volatility, pricing deviation and volume anomaly take the
  bars, the quote, the volume and the configuration and nothing else. The time factor
  also reads the clock, and depends on it only through the test whether fewer than 5
  minutes have passed since \<open>marketStartTime\<close>: two clock readings on the same side of
  that test give the same time factor, past the window the factor is 0, and without a
  \<open>marketStartTime\<close> the whole analysis is independent of the clock.
\<close>

theorem calculateTimeFactor_clock_window:
  "(((now1 - marketStartTime) / (Num 1000 * Num 60) < Num 5)
      = ((now2 - marketStartTime) / (Num 1000 * Num 60) < Num 5)
    \<longrightarrow> calculateTimeFactor cfg now1 klines marketStartTime
        = calculateTimeFactor cfg now2 klines marketStartTime)
   \<and> (\<not> ((now1 - marketStartTime) / (Num 1000 * Num 60) < Num 5)
        \<longrightarrow> calculateTimeFactor cfg now1 klines marketStartTime = Num 0)
   \<and> analyzeMarket this now1 symbol mId prices None
       = analyzeMarket this now2 symbol mId prices None"
  by (simp add: calculateTimeFactor_def analyzeMarket_def Let_def
      split: option.splits awaited.splits)

theorem calculateTimeFactor_clock_window_witness:
  "(((Num 1060000 - Num 1000000) / (Num 1000 * Num 60) < Num 5)
      = ((Num 1120000 - Num 1000000) / (Num 1000 * Num 60) < Num 5))
   \<and> calculateTimeFactor default_config (Num 1060000) rising_bars (Num 1000000)
       = calculateTimeFactor default_config (Num 1120000) rising_bars (Num 1000000)
   \<and> \<not> ((Num 1600000 - Num 1000000) / (Num 1000 * Num 60) < Num 5)
   \<and> calculateTimeFactor default_config (Num 1600000) rising_bars (Num 1000000) = Num 0"
proof -
  have h1: "((Num 1060000 - Num 1000000) / (Num 1000 * Num 60) < Num 5)
      = ((Num 1120000 - Num 1000000) / (Num 1000 * Num 60) < Num 5)"
    by (simp add: minus_jsnum_def)
  have h2: "\<not> ((Num 1600000 - Num 1000000) / (Num 1000 * Num 60) < Num 5)"
    by (simp add: minus_jsnum_def)
  from h1 calculateTimeFactor_clock_window
         [of "Num 1060000" "Num 1000000" "Num 1120000" default_config rising_bars]
  have e1: "calculateTimeFactor default_config (Num 1060000) rising_bars (Num 1000000)
       = calculateTimeFactor default_config (Num 1120000) rising_bars (Num 1000000)"
    by blast
  from h2 calculateTimeFactor_clock_window
         [of "Num 1600000" "Num 1000000" "Num 1600000" default_config rising_bars]
  have e2: "calculateTimeFactor default_config (Num 1600000) rising_bars (Num 1000000) = Num 0"
    by blast
  from h1 h2 e1 e2 show ?thesis
    by blast
qed

section \<open>analyzeMarket: thresholds and the missing reference price\<close>

lemma zero_momentum: "calculateMomentum default_config zero_bars = NaN"
  by (simp add: calculateMomentum_def momentum_step_def default_config_def zero_bars_def bar_def
      js_nth_def minus_jsnum_def Let_def eval_nat_numeral)

lemma zero_volatility: "calculateVolatility default_config zero_bars = NaN"
  by (simp add: calculateVolatility_def default_config_def zero_bars_def bar_def slice_last_def
      atr_of_def avgPrice_of_def js_sum_def js_length_def minus_jsnum_def Let_def
      eval_nat_numeral)

lemma zero_volume: "calculateVolumeAnomaly default_config zero_bars v = Num 0"
  by (simp add: calculateVolumeAnomaly_def zero_bars_def bar_def slice_last_def volume_or_0_def
      Let_def eval_nat_numeral)

lemma zero_time: "calculateTimeFactor default_config (Num 1060000) zero_bars (Num 1000000) = NaN"
  by (simp add: calculateTimeFactor_def default_config_def zero_bars_def bar_def slice_last_def
      js_nth_def minus_jsnum_def Let_def eval_nat_numeral)

lemma zero_combined:
  "combinedSignal default_config NaN NaN (Num 0) (Num 0) NaN =
     \<lparr>ss_direction = NO, ss_confidence = NaN, ss_signalStrength = NaN,
      ss_factors = \<lparr>f_momentum = NaN, f_volatility = NaN, f_pricingDeviation = Num 0,
                    f_volumeAnomaly = Num 0, f_timeFactor = NaN\<rparr>,
      ss_reasons = []\<rparr>"
  by (simp add: combinedSignal_def calculateFactorAgreement_def default_config_def Let_def
      minus_jsnum_def)

text \<open>
  C4. The claim: with both quotes and at least 10 bars, a signal is returned exactly
  when strength and confidence are at least their configured minimums. The two
  thresholds are tested with \<open><\<close>, which NaN passes. Ten bars whose prices are all 0,
  analysed one minute after the market start, give a time factor \<open>0/0\<close>, hence a
  strength and a confidence that are NaN, and \<open>analyzeMarket\<close> returns a signal
  although neither reaches its minimum.
\<close>

theorem analyzeMarket_emits_NaN_signal:
  "analyzeMarket zero_bar_strategy (Num 1060000) ''BTC'' ''m1'' [yes_quote, no_quote]
     (Some (Num 1000000))
   = Inr (Some \<lparr>marketId = ''m1'', ts_outcome = NO, ts_probability = Num 0.55,
                ts_confidence = NaN, ts_signalStrength = Some NaN, recommendedSize = NaN,
                ts_reason = []\<rparr>)
   \<and> \<not> (minSignalStrength (strategyConfig zero_bar_strategy) \<le> NaN)
   \<and> \<not> (minConfidence (strategyConfig zero_bar_strategy) \<le> NaN)"
proof -
  have len: "length zero_bars = 10"
    by (simp add: zero_bars_def)
  have t: "minSignalStrength default_config = Num 0.55" "minConfidence default_config = Num 0.6"
    by (simp_all add: default_config_def)
  show ?thesis
    by (simp add: analyzeMarket_def zero_bar_strategy_def yes_quote_def no_quote_def len
        zero_momentum zero_volatility zero_volume zero_time truthy_def combineFactors_def
        zero_combined emitSignal_def calculatePositionSize_def Let_def t)
qed

text \<open>
  Where strength and confidence are numbers, and so are the two minimums, the
  thresholds behave as the claim says.
\<close>

lemma not_less_iff_le: "a \<noteq> NaN \<Longrightarrow> b \<noteq> NaN \<Longrightarrow> (\<not> a < b) = (b \<le> a)"
  by (cases a; cases b) auto

lemma emitSignal_numeric_gate:
  assumes "ss_signalStrength (combinedSignal cfg m v pd va tf) \<noteq> NaN"
    and "ss_confidence (combinedSignal cfg m v pd va tf) \<noteq> NaN"
    and "minSignalStrength cfg \<noteq> NaN"
    and "minConfidence cfg \<noteq> NaN"
  shows "(emitSignal cfg mId y n (combineFactors cfg m v pd va tf y n) \<noteq> None)
       = (minSignalStrength cfg \<le> ss_signalStrength (combinedSignal cfg m v pd va tf)
          \<and> minConfidence cfg \<le> ss_confidence (combinedSignal cfg m v pd va tf))"
proof -
  have s: "(\<not> ss_signalStrength (combinedSignal cfg m v pd va tf) < minSignalStrength cfg)
             = (minSignalStrength cfg \<le> ss_signalStrength (combinedSignal cfg m v pd va tf))"
    using assms(1,3) by (rule not_less_iff_le)
  have c: "(\<not> ss_confidence (combinedSignal cfg m v pd va tf) < minConfidence cfg)
             = (minConfidence cfg \<le> ss_confidence (combinedSignal cfg m v pd va tf))"
    using assms(2,4) by (rule not_less_iff_le)
  show ?thesis
    using s c by (auto simp: emitSignal_def combineFactors_def Let_def)
qed

lemma analyzeMarket_no_reference:
  assumes "chainlinkClient this symbol = Threw \<or> chainlinkClient this symbol = Resolved None"
    and "klineClient this symbol 50 = Resolved klines"
  shows "analyzeMarket this now symbol mId prices marketStartTime =
     Inr (case (find (\<lambda>p. mp_outcome p = YES) prices, find (\<lambda>p. mp_outcome p = NO) prices) of
            (Some yesPrice, Some noPrice) \<Rightarrow>
              if length klines < 10 then None
              else emitSignal (strategyConfig this) mId yesPrice noPrice
                     (combineFactors (strategyConfig this)
                        (calculateMomentum (strategyConfig this) klines)
                        (calculateVolatility (strategyConfig this) klines)
                        (Num 0)
                        (calculateVolumeAnomaly (strategyConfig this) klines
                           (mp_volume24h yesPrice))
                        (case marketStartTime of
                           Some t \<Rightarrow>
                             if truthy t
                             then calculateTimeFactor (strategyConfig this) now klines t
                             else Num 0
                         | None \<Rightarrow> Num 0)
                        yesPrice noPrice)
          | _ \<Rightarrow> None)"
  using assms by (auto simp: analyzeMarket_def Let_def split: option.splits)









section \<open>The default thresholds without a reference price\<close>

lemma strength_unfold:
  assumes "(if momentumThreshold cfg < \<bar>m\<bar> then m else Num 0) = ms"
    and "(if Num 0.5 < v then Num 1.2 else Num 1.0) = vb"
    and "(if pricingDeviationThreshold cfg < \<bar>pd\<bar> then - pd else Num 0) = ps"
    and "(if Num 0.5 < va then Num 1.1 else Num 1.0) = wb"
  shows "ss_signalStrength (combinedSignal cfg m v pd va tf) =
     Math_min (Num 1)
       \<bar>ms * Num 0.40 * vb + ps * Num 0.25 + tf * Num 0.10 + (ms * wb - ms) * Num 0.10\<bar>"
  by (simp only: combinedSignal_def Let_def StrategySignal.select_convs assms)

lemma real_cap_each:
  fixes s t :: real
  assumes "\<bar>s\<bar> \<le> 1" "\<bar>t\<bar> \<le> 0.3"
  shows "\<bar>s * 0.4 * 1 + 0 * 0.25 + t * 0.1 + (s * 1 - s) * 0.1\<bar> < 0.55"
    and "\<bar>s * 0.4 * 1 + 0 * 0.25 + t * 0.1 + (s * 1.1 - s) * 0.1\<bar> < 0.55"
    and "\<bar>s * 0.4 * 1.2 + 0 * 0.25 + t * 0.1 + (s * 1 - s) * 0.1\<bar> < 0.55"
    and "\<bar>s * 0.4 * 1.2 + 0 * 0.25 + t * 0.1 + (s * 1.1 - s) * 0.1\<bar> < 0.55"
  using assms by (simp_all add: abs_if split: if_splits)

lemma real_cap:
  fixes s t b w :: real
  assumes "\<bar>s\<bar> \<le> 1" "\<bar>t\<bar> \<le> 0.3" "b = 1 \<or> b = 1.2" "w = 1 \<or> w = 1.1"
  shows "\<bar>s * 0.4 * b + 0 * 0.25 + t * 0.1 + (s * w - s) * 0.1\<bar> < 0.55"
  using assms(3,4) real_cap_each [OF assms(1,2)] by blast

lemma strength_cap:
  assumes "within_or_NaN 1 m" and "\<bar>t\<bar> \<le> 0.3"
  shows "ss_signalStrength (combinedSignal default_config m v (Num 0) va (Num t))
           < minSignalStrength default_config"
proof -
  have "\<exists>s. (if momentumThreshold default_config < \<bar>m\<bar> then m else Num 0) = Num s \<and> \<bar>s\<bar> \<le> 1"
    using assms(1) by (cases m) (auto simp: within_or_NaN_def default_config_def)
  then obtain s
    where s: "(if momentumThreshold default_config < \<bar>m\<bar> then m else Num 0) = Num s" "\<bar>s\<bar> \<le> 1"
    by blast
  define b :: real where "b = (if Num 0.5 < v then 1.2 else 1)"
  have b: "(if Num 0.5 < v then Num 1.2 else Num 1.0) = Num b" "b = 1 \<or> b = 1.2"
    by (simp_all add: b_def)
  define w :: real where "w = (if Num 0.5 < va then 1.1 else 1)"
  have w: "(if Num 0.5 < va then Num 1.1 else Num 1.0) = Num w" "w = 1 \<or> w = 1.1"
    by (simp_all add: w_def)
  have p: "(if pricingDeviationThreshold default_config < \<bar>Num 0\<bar> then - Num 0 else Num 0)
             = Num 0"
    by (simp add: default_config_def)
  define x where "x = s * 0.4 * b + 0 * 0.25 + t * 0.1 + (s * w - s) * 0.1"
  have x: "\<bar>x\<bar> < 0.55"
    unfolding x_def using s(2) assms(2) b(2) w(2) by (rule real_cap)
  have e: "Num s * Num 0.40 * Num b + Num 0 * Num 0.25 + Num t * Num 0.10
             + (Num s * Num w - Num s) * Num 0.10 = Num x"
    by (simp add: x_def minus_jsnum_def)
  have "Math_min (Num 1) \<bar>Num x\<bar> < Num 0.55"
    using x by simp
  then show ?thesis
    by (simp only: strength_unfold [OF s(1) b(1) p w(1)] e)
       (simp add: default_config_def)
qed

lemma NaN_absorbs: "x + NaN = NaN" "NaN + x = NaN" "NaN * x = NaN" "Math_min x NaN = NaN"
  by (cases x; simp)+

lemma strength_NaN_time: "ss_signalStrength (combinedSignal cfg m v pd va NaN) = NaN"
  by (simp add: strength_unfold [OF refl refl refl refl] NaN_absorbs)

lemma emitSignal_strength:
  "emitSignal cfg mId y n (combineFactors cfg m v pd va tf y n) = Some sig
   \<Longrightarrow> ts_signalStrength sig = Some (ss_signalStrength (combinedSignal cfg m v pd va tf))
       \<and> \<not> ss_signalStrength (combinedSignal cfg m v pd va tf) < minSignalStrength cfg"
  by (auto simp: emitSignal_def combineFactors_def Let_def split: if_splits)

text \<open>
  With the default thresholds the bars alone never carry a signal: the factors other
  than the pricing deviation bound the strength by 0.52, below the minimum of 0.55, so
  a signal returned without a reference price has a strength that is NaN.
\<close>

lemma default_thresholds_need_reference_price:
  assumes c: "chainlinkClient this symbol = Threw \<or> chainlinkClient this symbol = Resolved None"
    and d: "strategyConfig this = default_config"
    and r: "analyzeMarket this now symbol mId prices marketStartTime = Inr (Some sig)"
  shows "ts_signalStrength sig = Some NaN"
proof (cases "klineClient this symbol 50")
  case Threw
  with r show ?thesis
    by (auto simp: analyzeMarket_def Let_def split: option.splits)
next
  case (Resolved klines)
  define tf where "tf = (case marketStartTime of
                           Some t \<Rightarrow>
                             if truthy t then calculateTimeFactor default_config now klines t
                             else Num 0
                         | None \<Rightarrow> Num 0)"
  have tf: "within_or_NaN 0.3 tf"
    by (simp add: tf_def time_range within_or_NaN_0 split: option.splits)
  from r analyzeMarket_no_reference [OF c Resolved, of now mId prices marketStartTime]
  obtain y n where e: "emitSignal default_config mId y n
       (combineFactors default_config (calculateMomentum default_config klines)
          (calculateVolatility default_config klines) (Num 0)
          (calculateVolumeAnomaly default_config klines (mp_volume24h y)) tf y n) = Some sig"
    by (auto simp: d tf_def split: option.splits if_splits)
  note g = emitSignal_strength [OF e]
  show ?thesis
  proof (cases tf)
    case NaN
    with g show ?thesis
      by (simp add: strength_NaN_time)
  next
    case (Num t)
    with tf have "\<bar>t\<bar> \<le> 0.3"
      by (simp add: within_or_NaN_def)
    from strength_cap [OF momentum_range this] g Num show ?thesis
      by simp
  qed (use tf in \<open>simp_all add: within_or_NaN_def\<close>)
qed

end
